theory Spec2Isabelle
  imports Complex_Main
begin

section \<open>The residual heap inspector of the serializer\<close>

text \<open>
  A shallow embedding of \<^verbatim>\<open>src/serializer/ResidualHeapInspector.js\<close>.
  Objects of the interpreted heap have identity: they live in a store indexed by
  object references, and \<^verbatim>\<open>===\<close> between objects is equality of references.
  JavaScript's \<^verbatim>\<open>undefined\<close> (an absent descriptor, an absent value slot, an
  absent \<^verbatim>\<open>originalConstructor\<close>) is \<open>None\<close>.
\<close>

subsection \<open>Values, descriptors and objects\<close>

text \<open>
  Modelled from the spec: the value classes of \<^verbatim>\<open>values/index.js\<close>, the
  \<^verbatim>\<open>Descriptor\<close> type of \<^verbatim>\<open>types.js\<close>, \<^verbatim>\<open>IsArray\<close> of
  \<^verbatim>\<open>methods/index.js\<close>, the realm and the logger are imported by the inspector
  and are not part of its file. They are modelled by the read-only query surface the
  inspector uses: the class of a value (\<^verbatim>\<open>instanceof\<close>), its intrinsic flag,
  \<^verbatim>\<open>hasIdentifier()\<close> of an abstract value, the \<^verbatim>\<open>value\<close> field of a
  primitive, and the fields of objects and functions that the inspector reads.
\<close>

type_synonym oref = nat

text \<open>A JavaScript number, as far as the inspector looks at it: it tests \<^verbatim>\<open>=== 0\<close>.\<close>

datatype js_number = Finite rat | NegZero | PosInfinity | NegInfinity | NaN

text \<open>The classes below \<^verbatim>\<open>PrimitiveValue\<close>; a symbol is one of them.\<close>

datatype PrimitiveValue =
    UndefinedValue
  | NullValue
  | BooleanValue bool
  | NumberValue js_number
  | StringValue string
  | SymbolValue

text \<open>
  A value is a primitive or an abstract value, each with its intrinsic flag (an
  abstract value also with the answer of \<^verbatim>\<open>hasIdentifier()\<close>), or a reference to
  an object of the store, which holds the object's intrinsic flag.
\<close>

datatype Value =
    Primitive bool PrimitiveValue
  | Abstract bool bool
  | Object oref

record Descriptor =
  desc_value :: "Value option"
  writable :: bool
  enumerable :: bool
  configurable :: bool

record PropertyBinding =
  descriptor :: "Descriptor option"

text \<open>
  \<^verbatim>\<open>ECMAScriptSourceFunctionValue\<close> adds \<^verbatim>\<open>$Strict\<close> and
  \<^verbatim>\<open>$FunctionKind\<close> to \<^verbatim>\<open>FunctionValue\<close>, which adds
  \<^verbatim>\<open>__originalName\<close> and \<^verbatim>\<open>hasDefaultLength()\<close> to \<^verbatim>\<open>ObjectValue\<close>.
  A function that is not a source function (a native or a bound one) has
  \<open>source = None\<close>.
\<close>

record ECMAScriptSourceFunctionValue =
  Strict :: bool
  FunctionKind :: string

record FunctionValue =
  originalName :: "string option"
  hasDefaultLength :: bool
  source :: "ECMAScriptSourceFunctionValue option"

text \<open>
  The category of an object: one for which \<^verbatim>\<open>IsArray(realm, val)\<close> holds, an
  instance of \<^verbatim>\<open>FunctionValue\<close>, or any other object.
\<close>

datatype ObjectClass =
    ArrayObject
  | FunctionObject FunctionValue
  | OtherObject

text \<open>
  \<open>properties\<close> is the insertion-ordered \<^verbatim>\<open>Map<string, PropertyBinding>\<close>, as
  the list of its entries; \<open>symbols\<close> is the map of the symbol-keyed bindings;
  \<open>Prototype\<close> is \<^verbatim>\<open>$Prototype\<close>, \<open>Extensible\<close> is what
  \<^verbatim>\<open>getExtensible()\<close> answers and \<open>kind\<close> what \<^verbatim>\<open>getKind()\<close> answers.
\<close>

record ObjectValue =
  intrinsic :: bool
  properties :: "(string \<times> PropertyBinding) list"
  symbols :: "(nat \<times> PropertyBinding) list"
  Prototype :: Value
  Extensible :: bool
  originalConstructor :: "oref option"
  kind :: string
  cls :: ObjectClass

type_synonym heap = "oref \<Rightarrow> ObjectValue"

text \<open>
  Modelled from the spec: the realm of \<^verbatim>\<open>realm.js\<close>, by what the inspector
  asks of it: whether it is compatible with \<^verbatim>\<open>MOBILE_JSC_VERSION\<close>, the legacy
  engine, and the intrinsic \<^verbatim>\<open>ObjectPrototype\<close>.
\<close>

record Realm =
  isCompatibleWith_MOBILE_JSC_VERSION :: bool
  intrinsics_ObjectPrototype :: oref

subsection \<open>The queries on values\<close>

fun instanceof_SymbolValue :: "Value \<Rightarrow> bool" where
  "instanceof_SymbolValue (Primitive i SymbolValue) = True"
| "instanceof_SymbolValue v = False"

fun instanceof_AbstractValue :: "Value \<Rightarrow> bool" where
  "instanceof_AbstractValue (Abstract i h) = True"
| "instanceof_AbstractValue v = False"

fun instanceof_PrimitiveValue :: "Value \<Rightarrow> bool" where
  "instanceof_PrimitiveValue (Primitive i p) = True"
| "instanceof_PrimitiveValue v = False"

fun instanceof_UndefinedValue :: "Value option \<Rightarrow> bool" where
  "instanceof_UndefinedValue (Some (Primitive i UndefinedValue)) = True"
| "instanceof_UndefinedValue v = False"

fun hasIdentifier :: "Value \<Rightarrow> bool" where
  "hasIdentifier (Abstract i h) = h"
| "hasIdentifier v = False"

fun isIntrinsic :: "heap \<Rightarrow> Value \<Rightarrow> bool" where
  "isIntrinsic h (Primitive i p) = i"
| "isIntrinsic h (Abstract i hid) = i"
| "isIntrinsic h (Object r) = intrinsic (h r)"

text \<open>
  What \<^verbatim>\<open>x.value\<close> reads on a value: the payload of a boolean, a number or a
  string, and \<^verbatim>\<open>undefined\<close> on every other value.
\<close>

datatype js = js_undefined | js_boolean bool | js_number js_number | js_string string

fun value_field :: "Value \<Rightarrow> js" where
  "value_field (Primitive i (BooleanValue b)) = js_boolean b"
| "value_field (Primitive i (NumberValue n)) = js_number n"
| "value_field (Primitive i (StringValue s)) = js_string s"
| "value_field v = js_undefined"

definition is_zero :: "js_number \<Rightarrow> bool" where
  "is_zero n = (n = Finite 0 \<or> n = NegZero)"

text \<open>\<^verbatim>\<open>===\<close> on what \<open>value_field\<close> reads.\<close>

fun strict_eq :: "js \<Rightarrow> js \<Rightarrow> bool" where
  "strict_eq (js_number a) (js_number b) =
     (a \<noteq> NaN \<and> b \<noteq> NaN \<and> (a = b \<or> (is_zero a \<and> is_zero b)))"
| "strict_eq x y = (x = y)"

text \<open>A field of type \<^verbatim>\<open>void | string\<close>: its value, and its truthiness.\<close>

fun js_of_string :: "string option \<Rightarrow> js" where
  "js_of_string None = js_undefined"
| "js_of_string (Some n) = js_string n"

fun truthy :: "string option \<Rightarrow> bool" where
  "truthy None = False"
| "truthy (Some n) = (n \<noteq> '''')"

text \<open>
  Modelled from the spec: \<^verbatim>\<open>IsArray\<close> of \<^verbatim>\<open>methods/index.js\<close>, the
  detection of array-kind objects; arrays, functions and the other objects are separate
  categories of objects.
\<close>

definition IsArray :: "Realm \<Rightarrow> ObjectValue \<Rightarrow> bool" where
  "IsArray r obj = (cls obj = ArrayObject)"

subsection \<open>The inspector\<close>

text \<open>
  The state the inspector runs in: the heap it looks at, its fields \<open>realm\<close>,
  \<open>logger\<close> (the diagnostics the logger has received, each the value and the
  message of one \<^verbatim>\<open>logError\<close>) and \<open>ignoredProperties\<close> (the memoization
  table), and \<open>scans\<close>, which is not a field of the class: it records, in order, the
  object of every invocation of \<^verbatim>\<open>_getIgnoredProperties\<close>, so that the number
  of invocations can be stated.
\<close>

record state =
  heap :: heap
  realm :: Realm
  logger :: "(oref \<times> string) list"
  ignoredProperties :: "oref \<rightharpoonup> string set"
  scans :: "oref list"

text \<open>A failed \<^verbatim>\<open>invariant(...)\<close> throws.\<close>

datatype error = InvariantViolation

text \<open>The constructor: an empty memoization table.\<close>

definition ResidualHeapInspector :: "heap \<Rightarrow> Realm \<Rightarrow> (oref \<times> string) list \<Rightarrow> state" where
  "ResidualHeapInspector h r l =
     \<lparr>heap = h, realm = r, logger = l, ignoredProperties = Map.empty, scans = []\<rparr>"

text \<open>
  Modelled from the spec: \<^verbatim>\<open>Logger.logError\<close> of \<^verbatim>\<open>serializer/logger.js\<close>,
  a non-fatal call that hands the value and the message to the diagnostics sink.
\<close>

definition logError :: "state \<Rightarrow> oref \<Rightarrow> string \<Rightarrow> state" where
  "logError s v msg = s\<lparr>logger := logger s @ [(v, msg)]\<rparr>"

definition isLeaf :: "heap \<Rightarrow> Value \<Rightarrow> bool" where
  "isLeaf h val =
     (if instanceof_SymbolValue val then False
      else if instanceof_AbstractValue val \<and> hasIdentifier val then True
      else if isIntrinsic h val then False
      else instanceof_PrimitiveValue val)"

text \<open>
  \<^verbatim>\<open>_canIgnoreProperty\<close>, here \<open>p_canIgnoreProperty\<close>, as a name cannot begin
  with an underscore (and \<open>p_getIgnoredProperties\<close> below likewise). The rules of a category that do not return fall
  through to the rule for \<^verbatim>\<open>constructor\<close>; inside the function category the
  rule for \<^verbatim>\<open>arguments\<close> and \<^verbatim>\<open>caller\<close> falls through to the rule for
  \<^verbatim>\<open>prototype\<close>.
\<close>

definition p_canIgnoreProperty ::
  "state \<Rightarrow> oref \<Rightarrow> string \<Rightarrow> Descriptor \<Rightarrow> (error + bool) \<times> state" where
  "p_canIgnoreProperty s val key desc =
    (let obj = heap s val;
         constructor_rule =
           (key = ''constructor'' \<and> configurable desc \<and> \<not> enumerable desc \<and> writable desc \<and>
            desc_value desc = map_option Object (originalConstructor obj))
     in
     if IsArray (realm s) obj then
       (if key = ''length'' \<and> writable desc \<and> \<not> enumerable desc \<and> \<not> configurable desc
        then (Inr True, s)
        else (Inr constructor_rule, s))
     else
       (case cls obj of
          FunctionObject f \<Rightarrow>
            (let prototype_rule =
                   (if key = ''prototype'' \<and> \<not> configurable desc \<and> \<not> enumerable desc \<and>
                       writable desc \<and>
                       (case desc_value desc of
                          Some (Object p) \<Rightarrow> originalConstructor (heap s p) = Some val
                        | _ \<Rightarrow> False)
                    then True
                    else constructor_rule)
             in
             if key = ''length'' then
               (Inr (\<not> writable desc \<and> \<not> enumerable desc \<and> configurable desc \<and>
                     hasDefaultLength f),
                if desc_value desc = None
                then logError s val
                  ''Functions with length accessor properties are not supported in residual heap.''
                else s)
             else if key = ''name'' then
               (if (case desc_value desc of
                      None \<Rightarrow> False
                    | Some v \<Rightarrow>
                        \<not> isCompatibleWith_MOBILE_JSC_VERSION (realm s) \<and>
                        (instanceof_AbstractValue v \<or>
                         (truthy (originalName f) \<and> originalName f \<noteq> Some '''' \<and>
                          \<not> strict_eq (value_field v) (js_of_string (originalName f)))))
                then (Inr False, s)
                else (Inr True, s))
             else if key = ''arguments'' \<or> key = ''caller'' then
               (case source f of
                  None \<Rightarrow> (Inl InvariantViolation, s)
                | Some sf \<Rightarrow>
                    if \<not> Strict sf \<and> writable desc \<and> \<not> enumerable desc \<and> configurable desc \<and>
                       instanceof_UndefinedValue (desc_value desc) \<and> FunctionKind sf = ''normal''
                    then (Inr True, s)
                    else (Inr prototype_rule, s))
             else (Inr prototype_rule, s))
        | _ \<Rightarrow>
            if kind obj = ''RegExp'' \<and> key = ''lastIndex'' \<and> writable desc \<and>
               \<not> enumerable desc \<and> \<not> configurable desc
            then
              (Inr (case desc_value desc of
                      Some (Primitive i (NumberValue n)) \<Rightarrow> strict_eq (js_number n) (js_number (Finite 0))
                    | _ \<Rightarrow> False),
               s)
            else (Inr constructor_rule, s)))"

text \<open>
  The loop of \<^verbatim>\<open>_getIgnoredProperties\<close> over the entries of
  \<^verbatim>\<open>val.properties\<close>; \<open>set'\<close> is the set built so far. A binding is never
  \<^verbatim>\<open>undefined\<close> in a \<^verbatim>\<open>Map<string, PropertyBinding>\<close>, so
  \<^verbatim>\<open>invariant(propertyBinding)\<close> holds. An exception of \<^verbatim>\<open>_canIgnoreProperty\<close>
  ends the loop.
\<close>

fun getIgnoredProperties_loop ::
  "state \<Rightarrow> oref \<Rightarrow> (string \<times> PropertyBinding) list \<Rightarrow> string set \<Rightarrow> (error + string set) \<times> state"
where
  "getIgnoredProperties_loop s val [] set' = (Inr set', s)"
| "getIgnoredProperties_loop s val ((key, propertyBinding) # rest) set' =
     (case descriptor propertyBinding of
        None \<Rightarrow> getIgnoredProperties_loop s val rest set'
      | Some desc \<Rightarrow>
          (case p_canIgnoreProperty s val key desc of
             (Inl e, s') \<Rightarrow> (Inl e, s')
           | (Inr b, s') \<Rightarrow>
               getIgnoredProperties_loop s' val rest (if b then insert key set' else set')))"

definition p_getIgnoredProperties :: "state \<Rightarrow> oref \<Rightarrow> (error + string set) \<times> state" where
  "p_getIgnoredProperties s val =
     getIgnoredProperties_loop (s\<lparr>scans := scans s @ [val]\<rparr>) val (properties (heap s val)) {}"

definition canIgnoreProperty :: "state \<Rightarrow> oref \<Rightarrow> string \<Rightarrow> (error + bool) \<times> state" where
  "canIgnoreProperty s val key =
     (case ignoredProperties s val of
        Some set' \<Rightarrow> (Inr (key \<in> set'), s)
      | None \<Rightarrow>
          (case p_getIgnoredProperties s val of
             (Inl e, s') \<Rightarrow> (Inl e, s')
           | (Inr set', s') \<Rightarrow>
               (Inr (key \<in> set'), s'\<lparr>ignoredProperties := (ignoredProperties s')(val \<mapsto> set')\<rparr>)))"

definition getPropertyValue :: "heap \<Rightarrow> oref \<Rightarrow> string \<Rightarrow> Value option" where
  "getPropertyValue h val name =
     (case map_of (properties (h val)) name of
        None \<Rightarrow> None
      | Some prototypeBinding \<Rightarrow>
          (case descriptor prototypeBinding of
             None \<Rightarrow> None
           | Some prototypeDesc \<Rightarrow> desc_value prototypeDesc))"

text \<open>
  The loop of \<^verbatim>\<open>isDefaultPrototype\<close> over \<^verbatim>\<open>prototype.properties.keys()\<close>,
  with \<^verbatim>\<open>foundConstructor\<close> so far.
\<close>

fun isDefaultPrototype_loop :: "heap \<Rightarrow> oref \<Rightarrow> string list \<Rightarrow> bool \<Rightarrow> bool" where
  "isDefaultPrototype_loop h prototype [] foundConstructor = foundConstructor"
| "isDefaultPrototype_loop h prototype (name # rest) foundConstructor =
     (if name = ''constructor'' \<and>
         getPropertyValue h prototype name = map_option Object (originalConstructor (h prototype))
      then isDefaultPrototype_loop h prototype rest True
      else False)"

definition isDefaultPrototype :: "state \<Rightarrow> oref \<Rightarrow> bool" where
  "isDefaultPrototype s prototype =
     (if length (symbols (heap s prototype)) \<noteq> 0 \<or>
         Prototype (heap s prototype) \<noteq> Object (intrinsics_ObjectPrototype (realm s)) \<or>
         \<not> Extensible (heap s prototype)
      then False
      else isDefaultPrototype_loop (heap s) prototype (map fst (properties (heap s prototype))) False)"

subsection \<open>A pass: a sequence of calls of the exposed operations\<close>

text \<open>
  The traversal driver and the generator call \<^verbatim>\<open>isLeaf\<close>,
  \<^verbatim>\<open>canIgnoreProperty\<close>, \<^verbatim>\<open>isDefaultPrototype\<close> and
  \<^verbatim>\<open>getPropertyValue\<close> in some order; an exception ends the pass.
\<close>

datatype Call =
    IsLeaf Value
  | CanIgnoreProperty oref string
  | IsDefaultPrototype oref
  | GetPropertyValue oref string

datatype Result = Boolean bool | MaybeValue "Value option"

fun call :: "state \<Rightarrow> Call \<Rightarrow> (error + Result) \<times> state" where
  "call s (IsLeaf v) = (Inr (Boolean (isLeaf (heap s) v)), s)"
| "call s (CanIgnoreProperty val key) =
     (case canIgnoreProperty s val key of
        (Inl e, s') \<Rightarrow> (Inl e, s')
      | (Inr b, s') \<Rightarrow> (Inr (Boolean b), s'))"
| "call s (IsDefaultPrototype prototype) = (Inr (Boolean (isDefaultPrototype s prototype)), s)"
| "call s (GetPropertyValue val name) = (Inr (MaybeValue (getPropertyValue (heap s) val name)), s)"

fun calls :: "state \<Rightarrow> Call list \<Rightarrow> (error + Result list) \<times> state" where
  "calls s [] = (Inr [], s)"
| "calls s (c # cs) =
     (case call s c of
        (Inl e, s') \<Rightarrow> (Inl e, s')
      | (Inr r, s') \<Rightarrow>
          (case calls s' cs of
             (Inl e, s'') \<Rightarrow> (Inl e, s'')
           | (Inr rs, s'') \<Rightarrow> (Inr (r # rs), s'')))"

text \<open>
  A caller may also catch an exception and go on asking: \<open>queries\<close> runs every
  call of the list, whatever each one returns or throws, and gives the state at the end.
\<close>

fun queries :: "state \<Rightarrow> Call list \<Rightarrow> state" where
  "queries s [] = s"
| "queries s (c # cs) = queries (snd (call s c)) cs"

text \<open>
  Two conditions on a state that every pass keeps: each cached set is the one a scan of
  its object computes on the present heap, and the scanned objects are all different and
  all cached.
\<close>

definition memo_consistent :: "state \<Rightarrow> bool" where
  "memo_consistent s =
     (\<forall>val S. ignoredProperties s val = Some S \<longrightarrow> fst (p_getIgnoredProperties s val) = Inr S)"

definition scans_cached :: "state \<Rightarrow> bool" where
  "scans_cached s = (distinct (scans s) \<and> set (scans s) \<subseteq> dom (ignoredProperties s))"

subsection \<open>The conditions of the specification, in its words\<close>

text \<open>
  The specification speaks of the \<^emph>\<open>own enumerable property set\<close> of an object: the
  names whose descriptor is present and has the \<^verbatim>\<open>enumerable\<close> flag. The
  default-prototype condition of its section 4.3 reads: no symbol-keyed properties,
  prototype link the base object prototype, extensible, and an own enumerable property set
  of exactly one property \<^verbatim>\<open>constructor\<close> whose value is the object's
  \<^verbatim>\<open>originalConstructor\<close>.
\<close>

definition spec_ownEnumerableProperties :: "ObjectValue \<Rightarrow> string list" where
  "spec_ownEnumerableProperties obj =
     map fst (filter (\<lambda>(name, b). case descriptor b of None \<Rightarrow> False | Some d \<Rightarrow> enumerable d)
       (properties obj))"

definition spec_isDefaultPrototype :: "state \<Rightarrow> oref \<Rightarrow> bool" where
  "spec_isDefaultPrototype s prototype =
     (symbols (heap s prototype) = [] \<and>
      Prototype (heap s prototype) = Object (intrinsics_ObjectPrototype (realm s)) \<and>
      Extensible (heap s prototype) \<and>
      spec_ownEnumerableProperties (heap s prototype) = [''constructor''] \<and>
      getPropertyValue (heap s) prototype ''constructor'' =
        map_option Object (originalConstructor (heap s prototype)))"

text \<open>
  The rule for \<^verbatim>\<open>name\<close> of its section 4.2: omissible unless the descriptor holds
  a value, the runtime is not in the legacy compatibility mode, and the value is abstract
  or the function has a recorded original name different from the descriptor's literal
  value.
\<close>

definition spec_name_omissible :: "Realm \<Rightarrow> FunctionValue \<Rightarrow> Descriptor \<Rightarrow> bool" where
  "spec_name_omissible r f desc =
     (\<not> (\<exists>v. desc_value desc = Some v \<and> \<not> isCompatibleWith_MOBILE_JSC_VERSION r \<and>
            (instanceof_AbstractValue v \<or>
             (\<exists>n. originalName f = Some n \<and> value_field v \<noteq> js_string n))))"

text \<open>
  The rule for \<^verbatim>\<open>arguments\<close> and \<^verbatim>\<open>caller\<close> of its section 4.2: a
  strict-mode function and a function whose kind is not \<^verbatim>\<open>normal\<close> never qualify
  and must not reach the shape check, which an internal consistency check enforces: such
  a function at this rule fails the check, as does a function that is not of the expected
  concrete subtype; any other function is judged by the shape.
\<close>

definition spec_arguments_caller :: "FunctionValue \<Rightarrow> Descriptor \<Rightarrow> error + bool" where
  "spec_arguments_caller f desc =
     (case source f of
        None \<Rightarrow> Inl InvariantViolation
      | Some sf \<Rightarrow>
          if Strict sf \<or> FunctionKind sf \<noteq> ''normal'' then Inl InvariantViolation
          else Inr (writable desc \<and> \<not> enumerable desc \<and> configurable desc \<and>
                    instanceof_UndefinedValue (desc_value desc)))"

subsection \<open>A small heap\<close>

text \<open>
  The heap of a program that declares a function \<^verbatim>\<open>foo\<close>, with some variations of
  its objects; the theorems below are instantiated on it.
\<close>

definition data :: "Value \<Rightarrow> bool \<Rightarrow> bool \<Rightarrow> bool \<Rightarrow> PropertyBinding" where
  "data v w e c =
     \<lparr>descriptor = Some \<lparr>desc_value = Some v, writable = w, enumerable = e, configurable = c\<rparr>\<rparr>"

definition accessor :: "bool \<Rightarrow> bool \<Rightarrow> bool \<Rightarrow> PropertyBinding" where
  "accessor w e c =
     \<lparr>descriptor = Some \<lparr>desc_value = None, writable = w, enumerable = e, configurable = c\<rparr>\<rparr>"

definition deleted :: PropertyBinding where
  "deleted = \<lparr>descriptor = None\<rparr>"

definition ex_realm :: Realm where
  "ex_realm = \<lparr>isCompatibleWith_MOBILE_JSC_VERSION = False, intrinsics_ObjectPrototype = 0\<rparr>"

definition ex_object :: ObjectValue where
  "ex_object =
     \<lparr>intrinsic = False, properties = [], symbols = [], Prototype = Object 0, Extensible = True,
      originalConstructor = None, kind = ''Object'', cls = OtherObject\<rparr>"

definition ex_function :: "string option \<Rightarrow> ECMAScriptSourceFunctionValue option \<Rightarrow> ObjectClass" where
  "ex_function n sf = FunctionObject \<lparr>originalName = n, hasDefaultLength = True, source = sf\<rparr>"

definition ex_poison :: PropertyBinding where
  "ex_poison = data (Primitive False UndefinedValue) True False True"

text \<open>
  Object 0 is the base object prototype; 1 is \<^verbatim>\<open>foo\<close>, a non-strict normal
  function, and 2 its prototype; 3 is the prototype with a second binding, deleted; 4 has
  a deleted \<^verbatim>\<open>constructor\<close> binding only; 5 is a strict function; 6 a native
  function; 7 a function whose \<^verbatim>\<open>length\<close> is an accessor; 8 a function with the
  empty original name, renamed \<^verbatim>\<open>bar\<close>; 9 is \<^verbatim>\<open>foo\<close> renamed
  \<^verbatim>\<open>bar\<close>.
\<close>

definition ex_heap :: heap where
  "ex_heap =
     (\<lambda>r. ex_object)
     (0 := ex_object\<lparr>intrinsic := True, Prototype := Primitive True NullValue\<rparr>,
      1 := ex_object
        \<lparr>properties :=
           [(''length'', data (Primitive False (NumberValue (Finite 0))) False False True),
            (''name'', data (Primitive False (StringValue ''foo'')) False False True),
            (''arguments'', ex_poison),
            (''caller'', ex_poison),
            (''prototype'', data (Object 2) True False False)],
         cls := ex_function (Some ''foo'') (Some \<lparr>Strict = False, FunctionKind = ''normal''\<rparr>)\<rparr>,
      2 := ex_object
        \<lparr>properties := [(''constructor'', data (Object 1) True False True)],
         originalConstructor := Some 1\<rparr>,
      3 := ex_object
        \<lparr>properties := [(''constructor'', data (Object 1) True False True), (''foo'', deleted)],
         originalConstructor := Some 1\<rparr>,
      4 := ex_object\<lparr>properties := [(''constructor'', deleted)]\<rparr>,
      5 := ex_object
        \<lparr>properties := [(''arguments'', ex_poison)],
         cls := ex_function (Some ''foo'') (Some \<lparr>Strict = True, FunctionKind = ''normal''\<rparr>)\<rparr>,
      6 := ex_object
        \<lparr>properties := [(''arguments'', ex_poison)],
         cls := ex_function (Some ''foo'') None\<rparr>,
      7 := ex_object
        \<lparr>properties := [(''length'', accessor False False True)],
         cls := ex_function (Some ''foo'') (Some \<lparr>Strict = False, FunctionKind = ''normal''\<rparr>)\<rparr>,
      8 := ex_object
        \<lparr>properties := [(''name'', data (Primitive False (StringValue ''bar'')) False False True)],
         cls := ex_function (Some []) (Some \<lparr>Strict = False, FunctionKind = ''normal''\<rparr>)\<rparr>,
      9 := ex_object
        \<lparr>properties := [(''name'', data (Primitive False (StringValue ''bar'')) False False True)],
         cls := ex_function (Some ''foo'') (Some \<lparr>Strict = False, FunctionKind = ''normal''\<rparr>)\<rparr>)"

definition ex_state :: state where
  "ex_state = ResidualHeapInspector ex_heap ex_realm []"

section \<open>Properties\<close>

subsection \<open>What a scan of the properties changes and what it depends on\<close>

text \<open>
  \<^verbatim>\<open>_canIgnoreProperty\<close> leaves the state as it is or logs one error; its verdict
  depends on the heap and the realm only. The same holds for the loop of
  \<^verbatim>\<open>_getIgnoredProperties\<close>, whose result holds only names of bindings with a
  descriptor.
\<close>

lemma p_canIgnoreProperty_state:
  "snd (p_canIgnoreProperty s val key desc) = s \<or>
   snd (p_canIgnoreProperty s val key desc) =
     logError s val ''Functions with length accessor properties are not supported in residual heap.''"
proof (cases "cls (heap s val)")
  case ArrayObject
  then show ?thesis by (simp add: p_canIgnoreProperty_def IsArray_def Let_def)
next
  case (FunctionObject f)
  show ?thesis
  proof (cases "source f")
    case None
    with FunctionObject show ?thesis
      by (simp add: p_canIgnoreProperty_def IsArray_def Let_def)
  next
    case (Some sf)
    with FunctionObject show ?thesis
      by (simp add: p_canIgnoreProperty_def IsArray_def Let_def)
  qed
next
  case OtherObject
  then show ?thesis by (simp add: p_canIgnoreProperty_def IsArray_def Let_def)
qed


lemma p_canIgnoreProperty_frame:
  assumes "p_canIgnoreProperty s val key desc = (r, s')"
  shows "heap s' = heap s \<and> realm s' = realm s \<and> ignoredProperties s' = ignoredProperties s \<and>
         scans s' = scans s \<and> (\<exists>l. logger s' = logger s @ l)"
  using p_canIgnoreProperty_state [of s val key desc] assms
  by (auto simp: logError_def)

lemma p_canIgnoreProperty_result:
  assumes "heap s = heap t" "realm s = realm t"
  shows "fst (p_canIgnoreProperty s val key desc) = fst (p_canIgnoreProperty t val key desc)"
proof (cases "cls (heap t val)")
  case ArrayObject
  then show ?thesis
    unfolding p_canIgnoreProperty_def Let_def assms by (simp add: IsArray_def)
next
  case (FunctionObject f)
  show ?thesis
  proof (cases "source f")
    case None
    with FunctionObject show ?thesis
      unfolding p_canIgnoreProperty_def Let_def assms by (simp add: IsArray_def)
  next
    case (Some sf)
    with FunctionObject show ?thesis
      unfolding p_canIgnoreProperty_def Let_def assms by (simp add: IsArray_def)
  qed
next
  case OtherObject
  then show ?thesis
    unfolding p_canIgnoreProperty_def Let_def assms by (simp add: IsArray_def)
qed

lemma loop_frame:
  "getIgnoredProperties_loop s val ps S = (r, s') \<Longrightarrow>
   heap s' = heap s \<and> realm s' = realm s \<and> ignoredProperties s' = ignoredProperties s \<and>
   scans s' = scans s \<and> (\<exists>l. logger s' = logger s @ l)"
proof (induction ps arbitrary: s S)
  case Nil
  then show ?case by simp
next
  case (Cons p ps)
  obtain key b where p: "p = (key, b)" by (cases p)
  show ?case
  proof (cases "descriptor b")
    case None
    with Cons.prems p have "getIgnoredProperties_loop s val ps S = (r, s')" by simp
    from Cons.IH [OF this] show ?thesis .
  next
    case (Some d)
    obtain r1 s1 where c: "p_canIgnoreProperty s val key d = (r1, s1)"
      by (cases "p_canIgnoreProperty s val key d")
    note f = p_canIgnoreProperty_frame [OF c]
    show ?thesis
    proof (cases r1)
      case (Inl e)
      with Cons.prems p Some c have "s' = s1" by simp
      with f show ?thesis by simp
    next
      case (Inr x)
      with Cons.prems p Some c
      have "getIgnoredProperties_loop s1 val ps (if x then insert key S else S) = (r, s')"
        by simp
      from Cons.IH [OF this] f show ?thesis by auto
    qed
  qed
qed

lemma loop_result:
  "heap s = heap t \<Longrightarrow> realm s = realm t \<Longrightarrow>
   fst (getIgnoredProperties_loop s val ps S) = fst (getIgnoredProperties_loop t val ps S)"
proof (induction ps arbitrary: s t S)
  case Nil
  then show ?case by simp
next
  case (Cons p ps)
  obtain key b where p: "p = (key, b)" by (cases p)
  show ?case
  proof (cases "descriptor b")
    case None
    with p Cons.IH [OF Cons.prems] show ?thesis by simp
  next
    case (Some d)
    obtain r1 s1 where c: "p_canIgnoreProperty s val key d = (r1, s1)"
      by (cases "p_canIgnoreProperty s val key d")
    obtain r2 t1 where c': "p_canIgnoreProperty t val key d = (r2, t1)"
      by (cases "p_canIgnoreProperty t val key d")
    from p_canIgnoreProperty_result [OF Cons.prems, of val key d] c c'
    have r: "r2 = r1" by simp
    from p_canIgnoreProperty_frame [OF c] p_canIgnoreProperty_frame [OF c'] Cons.prems
    have h: "heap s1 = heap t1" "realm s1 = realm t1" by simp_all
    show ?thesis
    proof (cases r1)
      case (Inl e)
      with p Some c c' r show ?thesis by simp
    next
      case (Inr x)
      with p Some c c' r Cons.IH [OF h] show ?thesis by simp
    qed
  qed
qed

lemma loop_keys:
  "getIgnoredProperties_loop s val ps S = (Inr S', s') \<Longrightarrow> k \<in> S' \<Longrightarrow>
   k \<in> S \<or> (\<exists>b d. (k, b) \<in> set ps \<and> descriptor b = Some d)"
proof (induction ps arbitrary: s S)
  case Nil
  then show ?case by simp
next
  case (Cons p ps)
  obtain key b where p: "p = (key, b)" by (cases p)
  show ?case
  proof (cases "descriptor b")
    case None
    with Cons.prems p have "getIgnoredProperties_loop s val ps S = (Inr S', s')" by simp
    from Cons.IH [OF this Cons.prems(2)] show ?thesis by auto
  next
    case (Some d)
    obtain r1 s1 where c: "p_canIgnoreProperty s val key d = (r1, s1)"
      by (cases "p_canIgnoreProperty s val key d")
    show ?thesis
    proof (cases r1)
      case (Inl e)
      with Cons.prems p Some c show ?thesis by simp
    next
      case (Inr x)
      with Cons.prems p Some c
      have "getIgnoredProperties_loop s1 val ps (if x then insert key S else S) = (Inr S', s')"
        by simp
      from Cons.IH [OF this Cons.prems(2)] p Some show ?thesis
        by (auto split: if_splits)
    qed
  qed
qed

lemmas ex_defs = ex_state_def ResidualHeapInspector_def ex_heap_def ex_realm_def ex_object_def
  ex_function_def ex_poison_def data_def accessor_def deleted_def

lemmas run_defs = canIgnoreProperty_def p_getIgnoredProperties_def p_canIgnoreProperty_def
  IsArray_def logError_def isDefaultPrototype_def getPropertyValue_def isLeaf_def

subsection \<open>Leaf classification\<close>

text \<open>
  Claim C4. \<^verbatim>\<open>isLeaf\<close> applies its rules in priority order: a symbol value is never
  a leaf; otherwise an abstract value with an identifier is a leaf, intrinsic or not;
  otherwise an intrinsic value is not a leaf; otherwise the value is a leaf exactly when
  it is an instance of \<^verbatim>\<open>PrimitiveValue\<close>.
\<close>

theorem isLeaf_priority:
  "(instanceof_SymbolValue val \<longrightarrow> \<not> isLeaf h val) \<and>
   (\<not> instanceof_SymbolValue val \<and> instanceof_AbstractValue val \<and> hasIdentifier val \<longrightarrow>
      isLeaf h val) \<and>
   (\<not> instanceof_SymbolValue val \<and> \<not> (instanceof_AbstractValue val \<and> hasIdentifier val) \<and>
    isIntrinsic h val \<longrightarrow> \<not> isLeaf h val) \<and>
   (\<not> instanceof_SymbolValue val \<and> \<not> (instanceof_AbstractValue val \<and> hasIdentifier val) \<and>
    \<not> isIntrinsic h val \<longrightarrow> isLeaf h val = instanceof_PrimitiveValue val)"
  by (simp add: isLeaf_def)

text \<open>
  A symbol, an intrinsic abstract value with an identifier, the intrinsic base prototype,
  the intrinsic number \<^verbatim>\<open>NaN\<close>, a string and the function \<^verbatim>\<open>foo\<close>.
\<close>

theorem isLeaf_priority_witness:
  "\<not> isLeaf ex_heap (Primitive False SymbolValue) \<and>
   isLeaf ex_heap (Abstract True True) \<and>
   \<not> isLeaf ex_heap (Object 0) \<and>
   \<not> isLeaf ex_heap (Primitive True (NumberValue NaN)) \<and>
   isLeaf ex_heap (Primitive False (StringValue ''foo'')) \<and>
   \<not> isLeaf ex_heap (Object 1)"
  using isLeaf_priority [of "Primitive False SymbolValue" ex_heap]
    isLeaf_priority [of "Abstract True True" ex_heap]
    isLeaf_priority [of "Object 0" ex_heap]
    isLeaf_priority [of "Primitive True (NumberValue NaN)" ex_heap]
    isLeaf_priority [of "Primitive False (StringValue ''foo'')" ex_heap]
    isLeaf_priority [of "Object 1" ex_heap]
  by (simp add: ex_heap_def ex_object_def)

subsection \<open>The property-value accessor\<close>

text \<open>
  Claim C9. \<^verbatim>\<open>getPropertyValue\<close> returns the content of the value slot of the
  descriptor of the binding found under the name. It answers absent exactly when the
  binding is missing, or its descriptor is absent, or the descriptor has no value slot;
  so an accessor property of one object and a missing property of another give the same
  answer.
\<close>

theorem getPropertyValue_value_slot:
  "(\<forall>b d. map_of (properties (h val)) name = Some b \<and> descriptor b = Some d \<longrightarrow>
      getPropertyValue h val name = desc_value d) \<and>
   (getPropertyValue h val name = None \<longleftrightarrow>
      map_of (properties (h val)) name = None \<or>
      (\<exists>b. map_of (properties (h val)) name = Some b \<and> descriptor b = None) \<or>
      (\<exists>b d. map_of (properties (h val)) name = Some b \<and> descriptor b = Some d \<and>
         desc_value d = None)) \<and>
   ((\<exists>b d. map_of (properties (h val)) name = Some b \<and> descriptor b = Some d \<and>
       desc_value d = None) \<and>
    map_of (properties (h val')) name' = None \<longrightarrow>
      getPropertyValue h val name = getPropertyValue h val' name')"
  by (auto simp: getPropertyValue_def split: option.splits)

text \<open>
  The \<^verbatim>\<open>constructor\<close> of the prototype of \<^verbatim>\<open>foo\<close>, an accessor
  \<^verbatim>\<open>length\<close>, a deleted \<^verbatim>\<open>constructor\<close> and a missing \<^verbatim>\<open>length\<close>.
\<close>

theorem getPropertyValue_value_slot_witness:
  "getPropertyValue ex_heap 2 ''constructor'' = Some (Object 1) \<and>
   getPropertyValue ex_heap 7 ''length'' = None \<and>
   getPropertyValue ex_heap 4 ''constructor'' = None \<and>
   getPropertyValue ex_heap 2 ''length'' = None \<and>
   getPropertyValue ex_heap 7 ''length'' = getPropertyValue ex_heap 2 ''length''"
  using getPropertyValue_value_slot [of ex_heap 2 "''constructor''" 2 "''length''"]
    getPropertyValue_value_slot [of ex_heap 7 "''length''" 2 "''length''"]
    getPropertyValue_value_slot [of ex_heap 4 "''constructor''" 2 "''length''"]
    getPropertyValue_value_slot [of ex_heap 2 "''length''" 2 "''length''"]
  by (simp add: ex_defs)

subsection \<open>Default-prototype detection\<close>

lemma isDefaultPrototype_loop_eq:
  "isDefaultPrototype_loop h p names found =
     (if names = [] then found
      else (\<forall>n \<in> set names. n = ''constructor'') \<and>
           getPropertyValue h p ''constructor'' = map_option Object (originalConstructor (h p)))"
  by (induction names arbitrary: found) auto

lemma only_one_name:
  "distinct names \<Longrightarrow> (names \<noteq> [] \<and> (\<forall>n \<in> set names. n = c)) = (names = [c])"
  by (cases names; cases "tl names") auto

lemma isDefaultPrototype_loop_stops:
  "name \<noteq> ''constructor'' \<Longrightarrow>
   isDefaultPrototype_loop h p (before @ name # rest) found = False"
  by (induction before arbitrary: found) auto

text \<open>
  Claim C1, amended. The scan of \<^verbatim>\<open>isDefaultPrototype\<close> runs over every name of
  the object's own bindings, enumerable or not and deleted or not. For an object whose
  binding names are unique, \<^verbatim>\<open>isDefaultPrototype\<close> is true if and only if the object
  has no symbol-keyed properties, its prototype link is the realm's base object prototype,
  it is extensible, and its own bindings are exactly one, named \<^verbatim>\<open>constructor\<close>,
  for which \<^verbatim>\<open>getPropertyValue\<close> gives the object's \<^verbatim>\<open>originalConstructor\<close>.
  The scan answers false at the first name other than \<^verbatim>\<open>constructor\<close>, whatever
  precedes and follows it, and the verdict is false when no binding is named
  \<^verbatim>\<open>constructor\<close>.
\<close>

theorem isDefaultPrototype_iff:
  assumes "distinct (map fst (properties (heap s prototype)))"
  shows "(isDefaultPrototype s prototype \<longleftrightarrow>
            symbols (heap s prototype) = [] \<and>
            Prototype (heap s prototype) = Object (intrinsics_ObjectPrototype (realm s)) \<and>
            Extensible (heap s prototype) \<and>
            map fst (properties (heap s prototype)) = [''constructor''] \<and>
            getPropertyValue (heap s) prototype ''constructor'' =
              map_option Object (originalConstructor (heap s prototype))) \<and>
         (\<forall>before name rest found. name \<noteq> ''constructor'' \<longrightarrow>
            isDefaultPrototype_loop (heap s) prototype (before @ name # rest) found = False) \<and>
         (''constructor'' \<notin> fst ` set (properties (heap s prototype)) \<longrightarrow>
            \<not> isDefaultPrototype s prototype)"
proof -
  let ?names = "map fst (properties (heap s prototype))"
  have "isDefaultPrototype_loop (heap s) prototype ?names False =
          (?names = [''constructor''] \<and>
           getPropertyValue (heap s) prototype ''constructor'' =
             map_option Object (originalConstructor (heap s prototype)))"
    using only_one_name [OF assms, of "''constructor''"]
    by (auto simp: isDefaultPrototype_loop_eq)
  then have iff: "isDefaultPrototype s prototype \<longleftrightarrow>
            symbols (heap s prototype) = [] \<and>
            Prototype (heap s prototype) = Object (intrinsics_ObjectPrototype (realm s)) \<and>
            Extensible (heap s prototype) \<and>
            ?names = [''constructor''] \<and>
            getPropertyValue (heap s) prototype ''constructor'' =
              map_option Object (originalConstructor (heap s prototype))"
    by (auto simp: isDefaultPrototype_def)
  have "''constructor'' \<notin> fst ` set (properties (heap s prototype)) \<longrightarrow>
          ?names \<noteq> [''constructor'']"
    by (metis list.set_intros(1) set_map)
  with iff show ?thesis
    by (simp add: isDefaultPrototype_loop_stops)
qed

text \<open>
  The prototype of \<^verbatim>\<open>foo\<close> is a default prototype; the same object with a second
  binding is not, and neither is \<^verbatim>\<open>foo\<close> itself.
\<close>

theorem isDefaultPrototype_iff_witness:
  "isDefaultPrototype ex_state 2 \<and> \<not> isDefaultPrototype ex_state 3 \<and>
   \<not> isDefaultPrototype ex_state 1"
  using isDefaultPrototype_iff [of ex_state 2] isDefaultPrototype_iff [of ex_state 3]
    isDefaultPrototype_iff [of ex_state 1]
  by (simp add: getPropertyValue_def ex_defs)

text \<open>
  Claim C1 as the specification words it fails on the prototype of \<^verbatim>\<open>foo\<close>: its
  only property, \<^verbatim>\<open>constructor\<close>, is not enumerable, as the runtime creates it, so
  its own enumerable property set is empty; \<^verbatim>\<open>isDefaultPrototype\<close> is true.
\<close>

theorem isDefaultPrototype_enumerable_counterexample:
  "isDefaultPrototype ex_state 2 \<and> \<not> spec_isDefaultPrototype ex_state 2"
  by (simp add: isDefaultPrototype_def spec_isDefaultPrototype_def
      spec_ownEnumerableProperties_def getPropertyValue_def ex_defs)

text \<open>
  Claim C10. An object with no symbol-keyed properties, the base object prototype as its
  prototype link, extensible, with no \<^verbatim>\<open>originalConstructor\<close>, whose only binding
  is named \<^verbatim>\<open>constructor\<close> and has no descriptor, or a descriptor with no value
  slot, is a default prototype: the absent value is equal to the absent
  \<^verbatim>\<open>originalConstructor\<close>.
\<close>

theorem isDefaultPrototype_absent_constructor:
  assumes "symbols (heap s prototype) = []"
    and "Prototype (heap s prototype) = Object (intrinsics_ObjectPrototype (realm s))"
    and "Extensible (heap s prototype)"
    and "originalConstructor (heap s prototype) = None"
    and "properties (heap s prototype) = [(''constructor'', b)]"
    and "descriptor b = None \<or> (\<exists>d. descriptor b = Some d \<and> desc_value d = None)"
  shows "isDefaultPrototype s prototype"
  using assms by (auto simp: isDefaultPrototype_def getPropertyValue_def)

text \<open>Object 4, with its \<^verbatim>\<open>constructor\<close> deleted, and with an accessor in its place.\<close>

theorem isDefaultPrototype_absent_constructor_witness:
  "isDefaultPrototype ex_state 4 \<and>
   isDefaultPrototype
     (ex_state\<lparr>heap := ex_heap(4 := ex_object\<lparr>properties := [(''constructor'', accessor True False True)]\<rparr>)\<rparr>) 4"
  using isDefaultPrototype_absent_constructor [of ex_state 4 deleted]
    isDefaultPrototype_absent_constructor
      [of "ex_state\<lparr>heap := ex_heap(4 := ex_object\<lparr>properties := [(''constructor'', accessor True False True)]\<rparr>)\<rparr>"
          4 "accessor True False True"]
  by (simp add: ex_defs)

subsection \<open>The rules for the properties of a function\<close>

lemma strict_eq_string: "strict_eq x (js_string n) = (x = js_string n)"
  by (cases x) simp_all

lemma p_canIgnoreProperty_poison:
  assumes "cls (heap s val) = FunctionObject f" and "key = ''arguments'' \<or> key = ''caller''"
  shows "p_canIgnoreProperty s val key desc =
           (case source f of
              None \<Rightarrow> (Inl InvariantViolation, s)
            | Some sf \<Rightarrow>
                (Inr (\<not> Strict sf \<and> writable desc \<and> \<not> enumerable desc \<and> configurable desc \<and>
                      instanceof_UndefinedValue (desc_value desc) \<and> FunctionKind sf = ''normal''), s))"
proof -
  have k: "key \<noteq> ''length''" "key \<noteq> ''name''" "key \<noteq> ''prototype''" "key \<noteq> ''constructor''"
    using assms(2) by auto
  show ?thesis
    using assms(1) assms(2) k
    unfolding p_canIgnoreProperty_def Let_def IsArray_def
    by (simp split: option.split)
qed

text \<open>
  Claim C2, amended. For a function queried for \<^verbatim>\<open>arguments\<close> or
  \<^verbatim>\<open>caller\<close>: the internal consistency check fails exactly when the function is
  not a source function, and tests neither strictness nor the function kind; a strict
  source function and a source function whose kind is not \<^verbatim>\<open>normal\<close> pass it and
  are judged not omissible whatever the descriptor is, by the rule's own tests of
  \<^verbatim>\<open>$Strict\<close> and \<^verbatim>\<open>$FunctionKind\<close>; and a non-strict function of kind
  \<^verbatim>\<open>normal\<close> is judged omissible exactly when the descriptor is writable, not
  enumerable, configurable and its value is the Undefined value.
\<close>

theorem function_arguments_caller_rule:
  assumes "cls (heap s val) = FunctionObject f" and "key = ''arguments'' \<or> key = ''caller''"
  shows "(fst (p_canIgnoreProperty s val key desc) = Inl InvariantViolation \<longleftrightarrow> source f = None) \<and>
         (source f = None \<longrightarrow> p_canIgnoreProperty s val key desc = (Inl InvariantViolation, s)) \<and>
         (\<forall>sf. source f = Some sf \<and> (Strict sf \<or> FunctionKind sf \<noteq> ''normal'') \<longrightarrow>
            p_canIgnoreProperty s val key desc = (Inr False, s)) \<and>
         (\<forall>sf. source f = Some sf \<and> \<not> Strict sf \<and> FunctionKind sf = ''normal'' \<longrightarrow>
            p_canIgnoreProperty s val key desc =
              (Inr (writable desc \<and> \<not> enumerable desc \<and> configurable desc \<and>
                    instanceof_UndefinedValue (desc_value desc)), s))"
  unfolding p_canIgnoreProperty_poison [OF assms] by (auto split: option.splits)

text \<open>
  The descriptor of the canonical shape on the strict function 5, on the native function
  6 and on the non-strict normal function 1, and an enumerable one on function 1.
\<close>

theorem function_arguments_caller_rule_witness:
  "p_canIgnoreProperty ex_state 5 ''arguments''
     \<lparr>desc_value = Some (Primitive False UndefinedValue), writable = True, enumerable = False,
      configurable = True\<rparr> = (Inr False, ex_state) \<and>
   p_canIgnoreProperty ex_state 6 ''arguments''
     \<lparr>desc_value = Some (Primitive False UndefinedValue), writable = True, enumerable = False,
      configurable = True\<rparr> = (Inl InvariantViolation, ex_state) \<and>
   p_canIgnoreProperty ex_state 1 ''arguments''
     \<lparr>desc_value = Some (Primitive False UndefinedValue), writable = True, enumerable = False,
      configurable = True\<rparr> = (Inr True, ex_state) \<and>
   p_canIgnoreProperty ex_state 1 ''caller''
     \<lparr>desc_value = Some (Primitive False UndefinedValue), writable = True, enumerable = True,
      configurable = True\<rparr> = (Inr False, ex_state)"
  using function_arguments_caller_rule [of ex_state 5
      "\<lparr>originalName = Some ''foo'', hasDefaultLength = True,
        source = Some \<lparr>Strict = True, FunctionKind = ''normal''\<rparr>\<rparr>" "''arguments''"
      "\<lparr>desc_value = Some (Primitive False UndefinedValue), writable = True, enumerable = False,
        configurable = True\<rparr>"]
    function_arguments_caller_rule [of ex_state 6
      "\<lparr>originalName = Some ''foo'', hasDefaultLength = True, source = None\<rparr>" "''arguments''"
      "\<lparr>desc_value = Some (Primitive False UndefinedValue), writable = True, enumerable = False,
        configurable = True\<rparr>"]
    function_arguments_caller_rule [of ex_state 1
      "\<lparr>originalName = Some ''foo'', hasDefaultLength = True,
        source = Some \<lparr>Strict = False, FunctionKind = ''normal''\<rparr>\<rparr>" "''arguments''"
      "\<lparr>desc_value = Some (Primitive False UndefinedValue), writable = True, enumerable = False,
        configurable = True\<rparr>"]
    function_arguments_caller_rule [of ex_state 1
      "\<lparr>originalName = Some ''foo'', hasDefaultLength = True,
        source = Some \<lparr>Strict = False, FunctionKind = ''normal''\<rparr>\<rparr>" "''caller''"
      "\<lparr>desc_value = Some (Primitive False UndefinedValue), writable = True, enumerable = True,
        configurable = True\<rparr>"]
  by (simp add: ex_defs)

text \<open>
  Claim C2 as the specification words it fails on the strict function 5 with the
  descriptor of the canonical shape: the internal consistency check lets it through and
  the verdict is false, where the specification has the check stop it.
\<close>

theorem function_arguments_caller_counterexample:
  "cls (ex_heap 5) =
     FunctionObject \<lparr>originalName = Some ''foo'', hasDefaultLength = True,
       source = Some \<lparr>Strict = True, FunctionKind = ''normal''\<rparr>\<rparr> \<and>
   p_canIgnoreProperty ex_state 5 ''arguments''
     \<lparr>desc_value = Some (Primitive False UndefinedValue), writable = True, enumerable = False,
      configurable = True\<rparr> = (Inr False, ex_state) \<and>
   spec_arguments_caller
     \<lparr>originalName = Some ''foo'', hasDefaultLength = True,
      source = Some \<lparr>Strict = True, FunctionKind = ''normal''\<rparr>\<rparr>
     \<lparr>desc_value = Some (Primitive False UndefinedValue), writable = True, enumerable = False,
      configurable = True\<rparr> = Inl InvariantViolation"
  by (simp add: spec_arguments_caller_def p_canIgnoreProperty_def IsArray_def ex_defs)

text \<open>
  Claim C5, amended. For a function queried for \<^verbatim>\<open>name\<close>, the property is
  omissible unless the descriptor holds a value, the runtime is not in the legacy
  compatibility mode, and the value is abstract or the function has a recorded original
  name that is not the empty string and differs from the \<^verbatim>\<open>value\<close> field of the
  descriptor's value.
\<close>

theorem function_name_rule:
  assumes "cls (heap s val) = FunctionObject f"
  shows "p_canIgnoreProperty s val ''name'' desc =
           (Inr (\<not> (\<exists>v. desc_value desc = Some v \<and>
                      \<not> isCompatibleWith_MOBILE_JSC_VERSION (realm s) \<and>
                      (instanceof_AbstractValue v \<or>
                       (\<exists>n. originalName f = Some n \<and> n \<noteq> '''' \<and>
                          value_field v \<noteq> js_string n)))), s)"
proof (cases "desc_value desc")
  case None
  with assms show ?thesis
    by (simp add: p_canIgnoreProperty_def IsArray_def Let_def)
next
  case (Some v)
  show ?thesis
  proof (cases "originalName f")
    case None
    with Some assms show ?thesis
      by (simp add: p_canIgnoreProperty_def IsArray_def Let_def)
  next
    case (Some n)
    with \<open>desc_value desc = Some v\<close> assms show ?thesis
      by (simp add: p_canIgnoreProperty_def IsArray_def Let_def strict_eq_string)
  qed
qed

text \<open>
  The function \<^verbatim>\<open>foo\<close> with the name \<^verbatim>\<open>foo\<close>, with the name
  \<^verbatim>\<open>bar\<close>, and with an abstract name.
\<close>

theorem function_name_rule_witness:
  "p_canIgnoreProperty ex_state 1 ''name''
     \<lparr>desc_value = Some (Primitive False (StringValue ''foo'')), writable = False,
      enumerable = False, configurable = True\<rparr> = (Inr True, ex_state) \<and>
   p_canIgnoreProperty ex_state 9 ''name''
     \<lparr>desc_value = Some (Primitive False (StringValue ''bar'')), writable = False,
      enumerable = False, configurable = True\<rparr> = (Inr False, ex_state) \<and>
   p_canIgnoreProperty ex_state 1 ''name''
     \<lparr>desc_value = Some (Abstract False False), writable = False,
      enumerable = False, configurable = True\<rparr> = (Inr False, ex_state)"
  using function_name_rule [of ex_state 1
      "\<lparr>originalName = Some ''foo'', hasDefaultLength = True,
        source = Some \<lparr>Strict = False, FunctionKind = ''normal''\<rparr>\<rparr>"
      "\<lparr>desc_value = Some (Primitive False (StringValue ''foo'')), writable = False,
        enumerable = False, configurable = True\<rparr>"]
    function_name_rule [of ex_state 9
      "\<lparr>originalName = Some ''foo'', hasDefaultLength = True,
        source = Some \<lparr>Strict = False, FunctionKind = ''normal''\<rparr>\<rparr>"
      "\<lparr>desc_value = Some (Primitive False (StringValue ''bar'')), writable = False,
        enumerable = False, configurable = True\<rparr>"]
    function_name_rule [of ex_state 1
      "\<lparr>originalName = Some ''foo'', hasDefaultLength = True,
        source = Some \<lparr>Strict = False, FunctionKind = ''normal''\<rparr>\<rparr>"
      "\<lparr>desc_value = Some (Abstract False False), writable = False,
        enumerable = False, configurable = True\<rparr>"]
  by (simp add: ex_defs)

text \<open>
  Claim C5 as the specification words it fails on function 8, whose recorded original
  name is the empty string and whose \<^verbatim>\<open>name\<close> is the literal \<^verbatim>\<open>bar\<close>: the
  recorded name differs from the literal, and the property is judged omissible.
\<close>

theorem function_name_empty_counterexample:
  "cls (ex_heap 8) =
     FunctionObject \<lparr>originalName = Some [], hasDefaultLength = True,
       source = Some \<lparr>Strict = False, FunctionKind = ''normal''\<rparr>\<rparr> \<and>
   properties (ex_heap 8) =
     [(''name'', \<lparr>descriptor = Some \<lparr>desc_value = Some (Primitive False (StringValue ''bar'')),
         writable = False, enumerable = False, configurable = True\<rparr>\<rparr>)] \<and>
   fst (p_canIgnoreProperty ex_state 8 ''name''
     \<lparr>desc_value = Some (Primitive False (StringValue ''bar'')), writable = False,
      enumerable = False, configurable = True\<rparr>) = Inr True \<and>
   fst (canIgnoreProperty ex_state 8 ''name'') = Inr True \<and>
   \<not> spec_name_omissible (realm ex_state)
     \<lparr>originalName = Some [], hasDefaultLength = True,
      source = Some \<lparr>Strict = False, FunctionKind = ''normal''\<rparr>\<rparr>
     \<lparr>desc_value = Some (Primitive False (StringValue ''bar'')), writable = False,
      enumerable = False, configurable = True\<rparr>"
  by (simp add: spec_name_omissible_def canIgnoreProperty_def p_getIgnoredProperties_def
      p_canIgnoreProperty_def IsArray_def ex_defs)

text \<open>
  Claim C6. For a function queried for \<^verbatim>\<open>length\<close>, the decision returns and does
  not throw; its verdict is the shape check: the descriptor is not writable, not
  enumerable, configurable, and the function has its default length. When the
  descriptor's value slot is absent, exactly one error is handed to the logger, with the
  function and the fixed message, and nothing else changes; when it is present, nothing
  changes.
\<close>

theorem function_length_rule:
  assumes "cls (heap s val) = FunctionObject f"
  shows "fst (p_canIgnoreProperty s val ''length'' desc) =
           Inr (\<not> writable desc \<and> \<not> enumerable desc \<and> configurable desc \<and> hasDefaultLength f) \<and>
         (desc_value desc = None \<longrightarrow>
            snd (p_canIgnoreProperty s val ''length'' desc) =
              s\<lparr>logger := logger s @
                [(val, ''Functions with length accessor properties are not supported in residual heap.'')]\<rparr>) \<and>
         (desc_value desc \<noteq> None \<longrightarrow> snd (p_canIgnoreProperty s val ''length'' desc) = s)"
  using assms by (simp add: p_canIgnoreProperty_def IsArray_def Let_def logError_def)

text \<open>
  Function 7, whose \<^verbatim>\<open>length\<close> is an accessor of the default shape, and function
  1 with a writable \<^verbatim>\<open>length\<close>.
\<close>

theorem function_length_rule_witness:
  "fst (p_canIgnoreProperty ex_state 7 ''length''
          \<lparr>desc_value = None, writable = False, enumerable = False, configurable = True\<rparr>) = Inr True \<and>
   logger (snd (p_canIgnoreProperty ex_state 7 ''length''
          \<lparr>desc_value = None, writable = False, enumerable = False, configurable = True\<rparr>)) =
     [(7, ''Functions with length accessor properties are not supported in residual heap.'')] \<and>
   p_canIgnoreProperty ex_state 1 ''length''
     \<lparr>desc_value = Some (Primitive False (NumberValue (Finite 0))), writable = True,
      enumerable = False, configurable = True\<rparr> = (Inr False, ex_state)"
  using function_length_rule [of ex_state 7
      "\<lparr>originalName = Some ''foo'', hasDefaultLength = True,
        source = Some \<lparr>Strict = False, FunctionKind = ''normal''\<rparr>\<rparr>"
      "\<lparr>desc_value = None, writable = False, enumerable = False, configurable = True\<rparr>"]
    function_length_rule [of ex_state 1
      "\<lparr>originalName = Some ''foo'', hasDefaultLength = True,
        source = Some \<lparr>Strict = False, FunctionKind = ''normal''\<rparr>\<rparr>"
      "\<lparr>desc_value = Some (Primitive False (NumberValue (Finite 0))), writable = True,
        enumerable = False, configurable = True\<rparr>"]
  by (simp add: ex_defs prod_eq_iff)

subsection \<open>The memoization table\<close>

lemma p_getIgnoredProperties_frame:
  assumes "p_getIgnoredProperties s val = (r, s')"
  shows "heap s' = heap s \<and> realm s' = realm s \<and> ignoredProperties s' = ignoredProperties s \<and>
         scans s' = scans s @ [val] \<and> (\<exists>l. logger s' = logger s @ l)"
  using loop_frame [OF assms [unfolded p_getIgnoredProperties_def]] by simp

lemma p_getIgnoredProperties_result:
  assumes "heap s = heap t" "realm s = realm t"
  shows "fst (p_getIgnoredProperties s val) = fst (p_getIgnoredProperties t val)"
  unfolding p_getIgnoredProperties_def
  using loop_result [of "s\<lparr>scans := scans s @ [val]\<rparr>" "t\<lparr>scans := scans t @ [val]\<rparr>" val
      "properties (heap s val)" "{}"] assms
  by simp

lemma p_getIgnoredProperties_deleted:
  assumes "p_getIgnoredProperties s val = (Inr S, s')"
    and "distinct (map fst (properties (heap s val)))"
    and "(key, b) \<in> set (properties (heap s val))" and "descriptor b = None"
  shows "key \<notin> S"
proof
  assume k: "key \<in> S"
  from loop_keys [OF assms(1) [unfolded p_getIgnoredProperties_def] k]
  obtain b' d where b': "(key, b') \<in> set (properties (heap s val))" "descriptor b' = Some d"
    by auto
  from assms(2) assms(3) b'(1) have "b' = b"
    by (meson eq_key_imp_eq_value)
  with b'(2) assms(4) show False by simp
qed

lemma canIgnoreProperty_hit:
  "ignoredProperties s val = Some S \<Longrightarrow> canIgnoreProperty s val key = (Inr (key \<in> S), s)"
  by (simp add: canIgnoreProperty_def)

lemma canIgnoreProperty_miss_throw:
  "ignoredProperties s val = None \<Longrightarrow> p_getIgnoredProperties s val = (Inl e, s1) \<Longrightarrow>
   canIgnoreProperty s val key = (Inl e, s1)"
  by (simp add: canIgnoreProperty_def)

lemma canIgnoreProperty_miss:
  "ignoredProperties s val = None \<Longrightarrow> p_getIgnoredProperties s val = (Inr S, s1) \<Longrightarrow>
   canIgnoreProperty s val key =
     (Inr (key \<in> S), s1\<lparr>ignoredProperties := (ignoredProperties s1)(val \<mapsto> S)\<rparr>)"
  by (simp add: canIgnoreProperty_def)

lemma canIgnoreProperty_cases:
  assumes "canIgnoreProperty s val key = (r, s')"
  obtains (hit) S where "ignoredProperties s val = Some S" "r = Inr (key \<in> S)" "s' = s"
  | (throw) e where "ignoredProperties s val = None" "p_getIgnoredProperties s val = (Inl e, s')"
      "r = Inl e"
  | (miss) S s1 where "ignoredProperties s val = None" "p_getIgnoredProperties s val = (Inr S, s1)"
      "r = Inr (key \<in> S)" "s' = s1\<lparr>ignoredProperties := (ignoredProperties s1)(val \<mapsto> S)\<rparr>"
proof (cases "ignoredProperties s val")
  case (Some S)
  with assms have "r = Inr (key \<in> S)" "s' = s" by (simp_all add: canIgnoreProperty_def)
  with Some show ?thesis by (rule hit)
next
  case None
  obtain r1 s1 where g: "p_getIgnoredProperties s val = (r1, s1)"
    by (cases "p_getIgnoredProperties s val")
  show ?thesis
  proof (cases r1)
    case (Inl e)
    with None g assms have "r = Inl e" "s' = s1" by (simp_all add: canIgnoreProperty_def)
    with None g Inl show ?thesis by (auto intro: throw)
  next
    case (Inr S)
    with None g assms have "r = Inr (key \<in> S)"
      "s' = s1\<lparr>ignoredProperties := (ignoredProperties s1)(val \<mapsto> S)\<rparr>"
      by (simp_all add: canIgnoreProperty_def)
    with None g Inr show ?thesis by (auto intro: miss)
  qed
qed

lemma canIgnoreProperty_frame:
  assumes "canIgnoreProperty s val key = (r, s')"
  shows "heap s' = heap s \<and> realm s' = realm s \<and>
         ignoredProperties s \<subseteq>\<^sub>m ignoredProperties s' \<and> (\<exists>l. logger s' = logger s @ l)"
  using assms
proof (cases rule: canIgnoreProperty_cases)
  case (hit S)
  then show ?thesis by simp
next
  case (throw e)
  with p_getIgnoredProperties_frame [OF throw(2)] show ?thesis by simp
next
  case (miss S s1)
  with p_getIgnoredProperties_frame [OF miss(2)] show ?thesis
    by (auto simp: map_le_def)
qed

lemma call_frame:
  assumes "call s c = (r, s')"
  shows "heap s' = heap s \<and> realm s' = realm s \<and>
         ignoredProperties s \<subseteq>\<^sub>m ignoredProperties s' \<and> (\<exists>l. logger s' = logger s @ l)"
proof (cases c)
  case (CanIgnoreProperty val key)
  obtain r1 s1 where c1: "canIgnoreProperty s val key = (r1, s1)"
    by (cases "canIgnoreProperty s val key")
  with assms CanIgnoreProperty have "s' = s1" by (cases r1) simp_all
  with canIgnoreProperty_frame [OF c1] show ?thesis by simp
qed (use assms in auto)

lemma calls_frame:
  "calls s cs = (r, s') \<Longrightarrow>
   heap s' = heap s \<and> realm s' = realm s \<and>
   ignoredProperties s \<subseteq>\<^sub>m ignoredProperties s' \<and> (\<exists>l. logger s' = logger s @ l)"
proof (induction cs arbitrary: s r s')
  case Nil
  then show ?case by simp
next
  case (Cons c cs)
  obtain r1 s1 where c1: "call s c = (r1, s1)" by (cases "call s c")
  note f1 = call_frame [OF c1]
  show ?case
  proof (cases r1)
    case (Inl e)
    with Cons.prems c1 have "s' = s1" by simp
    with f1 show ?thesis by simp
  next
    case (Inr x)
    obtain r2 s2 where c2: "calls s1 cs = (r2, s2)" by (cases "calls s1 cs")
    with Cons.prems c1 Inr have "s' = s2" by (cases r2) simp_all
    with Cons.IH [OF c2] f1 show ?thesis
      by (auto intro: map_le_trans)
  qed
qed

lemma call_memo_consistent:
  assumes "memo_consistent s" and "call s c = (r, s')"
  shows "memo_consistent s'"
proof (cases c)
  case (CanIgnoreProperty val key)
  obtain r1 s1 where c1: "canIgnoreProperty s val key = (r1, s1)"
    by (cases "canIgnoreProperty s val key")
  with assms(2) CanIgnoreProperty have s': "s' = s1" by (cases r1) simp_all
  from canIgnoreProperty_frame [OF c1] s' have "heap s' = heap s" "realm s' = realm s"
    by simp_all
  then have same: "\<And>v. fst (p_getIgnoredProperties s' v) = fst (p_getIgnoredProperties s v)"
    by (rule p_getIgnoredProperties_result)
  from c1 show ?thesis
  proof (cases rule: canIgnoreProperty_cases)
    case (hit S)
    with assms(1) s' show ?thesis by simp
  next
    case (throw e)
    with p_getIgnoredProperties_frame [OF throw(2)] assms(1) s' same show ?thesis
      by (simp add: memo_consistent_def)
  next
    case (miss S s2)
    with p_getIgnoredProperties_frame [OF miss(2)] assms(1) s' same show ?thesis
      by (simp add: memo_consistent_def)
  qed
qed (use assms in auto)

lemma calls_memo_consistent:
  "memo_consistent s \<Longrightarrow> calls s cs = (r, s') \<Longrightarrow> memo_consistent s'"
proof (induction cs arbitrary: s r s')
  case Nil
  then show ?case by simp
next
  case (Cons c cs)
  obtain r1 s1 where c1: "call s c = (r1, s1)" by (cases "call s c")
  note m1 = call_memo_consistent [OF Cons.prems(1) c1]
  show ?case
  proof (cases r1)
    case (Inl e)
    with Cons.prems c1 have "s' = s1" by simp
    with m1 show ?thesis by simp
  next
    case (Inr x)
    obtain r2 s2 where c2: "calls s1 cs = (r2, s2)" by (cases "calls s1 cs")
    with Cons.prems c1 Inr have "s' = s2" by (cases r2) simp_all
    with Cons.IH [OF m1 c2] show ?thesis by simp
  qed
qed

lemma memo_consistent_new: "memo_consistent (ResidualHeapInspector h r l)"
  by (simp add: memo_consistent_def ResidualHeapInspector_def)

lemma scans_cached_new: "scans_cached (ResidualHeapInspector h r l)"
  by (simp add: scans_cached_def ResidualHeapInspector_def)

lemma call_scans:
  assumes "scans_cached s" and "call s c = (r, s')"
  shows "distinct (scans s') \<and> ((\<exists>x. r = Inr x) \<longrightarrow> scans_cached s')"
proof (cases c)
  case (CanIgnoreProperty val key)
  obtain r1 s1 where c1: "canIgnoreProperty s val key = (r1, s1)"
    by (cases "canIgnoreProperty s val key")
  with assms(2) CanIgnoreProperty have s': "s' = s1"
    by (cases r1) simp_all
  from c1 assms(2) CanIgnoreProperty have r: "(\<exists>x. r = Inr x) = (\<exists>x. r1 = Inr x)"
    by (cases r1) auto
  from c1 show ?thesis
  proof (cases rule: canIgnoreProperty_cases)
    case (hit S)
    with assms(1) s' show ?thesis by (simp add: scans_cached_def)
  next
    case (throw e)
    with p_getIgnoredProperties_frame [OF throw(2)] assms(1) s' r show ?thesis
      by (auto simp: scans_cached_def)
  next
    case (miss S s2)
    with p_getIgnoredProperties_frame [OF miss(2)] assms(1) s' show ?thesis
      by (auto simp: scans_cached_def)
  qed
qed (use assms in \<open>auto simp: scans_cached_def\<close>)

lemma calls_scans:
  "scans_cached s \<Longrightarrow> calls s cs = (r, s') \<Longrightarrow> distinct (scans s')"
proof (induction cs arbitrary: s r s')
  case Nil
  then show ?case by (simp add: scans_cached_def)
next
  case (Cons c cs)
  obtain r1 s1 where c1: "call s c = (r1, s1)" by (cases "call s c")
  note m1 = call_scans [OF Cons.prems(1) c1]
  show ?case
  proof (cases r1)
    case (Inl e)
    with Cons.prems c1 have "s' = s1" by simp
    with m1 show ?thesis by simp
  next
    case (Inr x)
    obtain r2 s2 where c2: "calls s1 cs = (r2, s2)" by (cases "calls s1 cs")
    with Cons.prems c1 Inr have "s' = s2" by (cases r2) simp_all
    with Cons.IH [OF _ c2] m1 Inr show ?thesis by simp
  qed
qed

lemma distinct_count_list: "distinct xs \<Longrightarrow> count_list xs x \<le> 1"
  by (induction xs) (auto simp: count_notin)

lemma queries_frame:
  "heap (queries s cs) = heap s \<and> realm (queries s cs) = realm s \<and>
   ignoredProperties s \<subseteq>\<^sub>m ignoredProperties (queries s cs)"
proof (induction cs arbitrary: s)
  case Nil
  then show ?case by simp
next
  case (Cons c cs)
  have c1: "call s c = (fst (call s c), snd (call s c))"
    by (rule prod.collapse [symmetric])
  from call_frame [OF c1] Cons.IH [of "snd (call s c)"] show ?case
    by (auto intro: map_le_trans)
qed

lemma call_scans_once:
  assumes good: "fst (p_getIgnoredProperties s v) = Inr S"
    and once: "count_list (scans s) v \<le> 1"
    and cached: "v \<in> set (scans s) \<longrightarrow> ignoredProperties s v \<noteq> None"
    and c: "call s c = (r, s')"
  shows "count_list (scans s') v \<le> 1 \<and> (v \<in> set (scans s') \<longrightarrow> ignoredProperties s' v \<noteq> None)"
proof (cases c)
  case (CanIgnoreProperty val key)
  obtain r1 s1 where c1: "canIgnoreProperty s val key = (r1, s1)"
    by (cases "canIgnoreProperty s val key")
  with c CanIgnoreProperty have s': "s' = s1"
    by (cases r1) simp_all
  from c1 show ?thesis
  proof (cases rule: canIgnoreProperty_cases)
    case (hit S1)
    with once cached s' show ?thesis by simp
  next
    case (throw e)
    with good have "val \<noteq> v" by auto
    with p_getIgnoredProperties_frame [OF throw(2)] once cached s' show ?thesis
      by simp
  next
    case (miss S1 s2)
    note f = p_getIgnoredProperties_frame [OF miss(2)]
    show ?thesis
    proof (cases "val = v")
      case True
      with miss(1) cached have "v \<notin> set (scans s)" by auto
      with True f miss s' show ?thesis by simp
    next
      case False
      with f miss once cached s' show ?thesis by simp
    qed
  qed
qed (use assms in auto)

lemma queries_scans_once:
  "fst (p_getIgnoredProperties s v) = Inr S \<Longrightarrow> count_list (scans s) v \<le> 1 \<Longrightarrow>
   v \<in> set (scans s) \<longrightarrow> ignoredProperties s v \<noteq> None \<Longrightarrow>
   count_list (scans (queries s cs)) v \<le> 1"
proof (induction cs arbitrary: s)
  case Nil
  then show ?case by simp
next
  case (Cons c cs)
  have c1: "call s c = (fst (call s c), snd (call s c))"
    by (rule prod.collapse [symmetric])
  from call_frame [OF c1] have "heap (snd (call s c)) = heap s" "realm (snd (call s c)) = realm s"
    by simp_all
  then have "fst (p_getIgnoredProperties (snd (call s c)) v) = fst (p_getIgnoredProperties s v)"
    by (rule p_getIgnoredProperties_result)
  with Cons.prems(1) have g: "fst (p_getIgnoredProperties (snd (call s c)) v) = Inr S"
    by simp
  from call_scans_once [OF Cons.prems c1]
  have "count_list (scans (snd (call s c))) v \<le> 1"
    and "v \<in> set (scans (snd (call s c))) \<longrightarrow> ignoredProperties (snd (call s c)) v \<noteq> None"
    by simp_all
  from Cons.IH [OF g this] show ?case by simp
qed

text \<open>
  Claim C7, amended. When a call of \<^verbatim>\<open>canIgnoreProperty\<close> has returned a verdict
  for an object and a key, a call with the same object and key after any further calls,
  also calls that throw, returns the same verdict and leaves the state as it is: nothing
  is scanned or logged again. With a new inspector, an object whose scan does not throw
  is scanned by \<^verbatim>\<open>_getIgnoredProperties\<close> at most once, whatever the calls are and
  however many of them throw for other objects; and in a pass in which no call throws,
  every object is scanned at most once. A scan that throws caches nothing, so every
  further query for its object scans again.
\<close>

theorem canIgnoreProperty_memoized:
  "(canIgnoreProperty s val key = (Inr b, s1) \<longrightarrow>
      canIgnoreProperty (queries s1 cs) val key = (Inr b, queries s1 cs)) \<and>
   (fst (p_getIgnoredProperties (ResidualHeapInspector h r l) val') = Inr S \<longrightarrow>
      count_list (scans (queries (ResidualHeapInspector h r l) cs')) val' \<le> 1) \<and>
   (calls (ResidualHeapInspector h r l) cs' = (Inr rs, s') \<longrightarrow>
      (\<forall>val. count_list (scans s') val \<le> 1))"
proof (intro conjI impI allI)
  assume a1: "canIgnoreProperty s val key = (Inr b, s1)"
  then have "\<exists>S. ignoredProperties s1 val = Some S \<and> b = (key \<in> S)"
  proof (cases rule: canIgnoreProperty_cases)
    case (hit S)
    then show ?thesis by simp
  next
    case (throw e)
    then show ?thesis by simp
  next
    case (miss S s0)
    then show ?thesis by simp
  qed
  then obtain S where S: "ignoredProperties s1 val = Some S" "b = (key \<in> S)" by blast
  from queries_frame [of s1 cs] have "ignoredProperties s1 \<subseteq>\<^sub>m ignoredProperties (queries s1 cs)"
    by simp
  with S(1) have "ignoredProperties (queries s1 cs) val = Some S"
    by (metis domI map_le_def)
  with S(2) show "canIgnoreProperty (queries s1 cs) val key = (Inr b, queries s1 cs)"
    by (simp add: canIgnoreProperty_hit)
next
  assume "fst (p_getIgnoredProperties (ResidualHeapInspector h r l) val') = Inr S"
  then show "count_list (scans (queries (ResidualHeapInspector h r l) cs')) val' \<le> 1"
    by (rule queries_scans_once) (simp_all add: ResidualHeapInspector_def)
next
  fix val
  assume "calls (ResidualHeapInspector h r l) cs' = (Inr rs, s')"
  from calls_scans [OF scans_cached_new this] show "count_list (scans s') val \<le> 1"
    by (rule distinct_count_list)
qed

text \<open>
  The function 7 is asked for \<^verbatim>\<open>length\<close>, other calls follow, one of which
  throws, and it is asked again; and two runs that ask three times about function 7.
\<close>

theorem canIgnoreProperty_memoized_witness:
  "fst (canIgnoreProperty ex_state 7 ''length'') = Inr True \<and>
   canIgnoreProperty
     (queries (snd (canIgnoreProperty ex_state 7 ''length''))
        [IsDefaultPrototype 2, CanIgnoreProperty 6 ''arguments'', CanIgnoreProperty 1 ''name''])
     7 ''length'' =
     (Inr True,
      queries (snd (canIgnoreProperty ex_state 7 ''length''))
        [IsDefaultPrototype 2, CanIgnoreProperty 6 ''arguments'', CanIgnoreProperty 1 ''name'']) \<and>
   fst (p_getIgnoredProperties ex_state 7) = Inr {''length''} \<and>
   count_list
     (scans (queries ex_state
        [CanIgnoreProperty 7 ''length'', CanIgnoreProperty 6 ''arguments'',
         CanIgnoreProperty 7 ''name'', CanIgnoreProperty 7 ''length'']))
     7 \<le> 1 \<and>
   fst (calls ex_state
     [CanIgnoreProperty 7 ''length'', CanIgnoreProperty 7 ''name'',
      CanIgnoreProperty 7 ''length'']) = Inr [Boolean True, Boolean False, Boolean True] \<and>
   count_list
     (scans (snd (calls ex_state
        [CanIgnoreProperty 7 ''length'', CanIgnoreProperty 7 ''name'',
         CanIgnoreProperty 7 ''length''])))
     7 \<le> 1"
proof -
  let ?cs = "[IsDefaultPrototype 2, CanIgnoreProperty 6 ''arguments'', CanIgnoreProperty 1 ''name'']"
  let ?qs = "[CanIgnoreProperty 7 ''length'', CanIgnoreProperty 6 ''arguments'',
         CanIgnoreProperty 7 ''name'', CanIgnoreProperty 7 ''length'']"
  let ?ps = "[CanIgnoreProperty 7 ''length'', CanIgnoreProperty 7 ''name'',
      CanIgnoreProperty 7 ''length'']"
  have first: "fst (canIgnoreProperty ex_state 7 ''length'') = Inr True"
    by (simp add: run_defs ex_defs)
  then have c1: "canIgnoreProperty ex_state 7 ''length'' =
      (Inr True, snd (canIgnoreProperty ex_state 7 ''length''))"
    by (simp add: prod_eq_iff)
  have scan: "fst (p_getIgnoredProperties (ResidualHeapInspector ex_heap ex_realm []) 7) =
      Inr {''length''}"
    by (simp add: run_defs ex_defs)
  have res: "fst (calls ex_state ?ps) = Inr [Boolean True, Boolean False, Boolean True]"
    by (simp add: run_defs ex_defs)
  then have c3: "calls (ResidualHeapInspector ex_heap ex_realm []) ?ps =
      (Inr [Boolean True, Boolean False, Boolean True], snd (calls ex_state ?ps))"
    by (simp add: prod_eq_iff ex_state_def del: calls.simps)
  note t = canIgnoreProperty_memoized [of ex_state 7 "''length''" True
      "snd (canIgnoreProperty ex_state 7 ''length'')" ?cs ex_heap ex_realm "[]" 7
      "{''length''}" ?qs "[Boolean True, Boolean False, Boolean True]"
      "snd (calls ex_state ?ps)"]
  note u = canIgnoreProperty_memoized [of ex_state 7 "''length''" True
      "snd (canIgnoreProperty ex_state 7 ''length'')" ?cs ex_heap ex_realm "[]" 7
      "{''length''}" ?ps "[Boolean True, Boolean False, Boolean True]"
      "snd (calls ex_state ?ps)"]
  from t [THEN conjunct1, THEN mp, OF c1]
    t [THEN conjunct2, THEN conjunct1, THEN mp, OF scan]
    u [THEN conjunct2, THEN conjunct2, THEN mp, OF c3, THEN spec, of 7]
    first scan res
  show ?thesis
    by (simp add: ex_state_def [symmetric] del: calls.simps queries.simps)
qed

text \<open>
  Claim C7 as the specification words it fails on the native function 6, whose scan
  throws at its \<^verbatim>\<open>arguments\<close>: asked twice, it is scanned twice.
\<close>

theorem canIgnoreProperty_rescan_counterexample:
  "fst (canIgnoreProperty ex_state 6 ''arguments'') = Inl InvariantViolation \<and>
   fst (canIgnoreProperty (snd (canIgnoreProperty ex_state 6 ''arguments'')) 6 ''arguments'') =
     Inl InvariantViolation \<and>
   scans (snd (canIgnoreProperty (snd (canIgnoreProperty ex_state 6 ''arguments'')) 6
     ''arguments'')) = [6, 6] \<and>
   count_list
     (scans (snd (canIgnoreProperty (snd (canIgnoreProperty ex_state 6 ''arguments'')) 6
        ''arguments''))) 6 = 2"
  by (simp add: run_defs ex_defs)

text \<open>
  Claim C8. A call of \<^verbatim>\<open>isLeaf\<close>, \<^verbatim>\<open>canIgnoreProperty\<close>,
  \<^verbatim>\<open>isDefaultPrototype\<close> or \<^verbatim>\<open>getPropertyValue\<close>, and any sequence of
  such calls, whether it returns or throws, leaves the heap as it is (every object, with
  its bindings, descriptors and values) and the realm as it is. Of the inspector's own
  state only the memoization table changes, and every entry it holds stays in it with the
  same set. The logger, which is not part of the heap, only receives further errors.
\<close>

theorem inspector_frame:
  "(call s c = (r, s1) \<longrightarrow>
      heap s1 = heap s \<and> realm s1 = realm s \<and>
      ignoredProperties s \<subseteq>\<^sub>m ignoredProperties s1 \<and> (\<exists>l. logger s1 = logger s @ l)) \<and>
   (calls s cs = (rs, s2) \<longrightarrow>
      heap s2 = heap s \<and> realm s2 = realm s \<and>
      ignoredProperties s \<subseteq>\<^sub>m ignoredProperties s2 \<and> (\<exists>l. logger s2 = logger s @ l))"
proof (rule conjI; rule impI)
  assume "call s c = (r, s1)"
  then show "heap s1 = heap s \<and> realm s1 = realm s \<and>
      ignoredProperties s \<subseteq>\<^sub>m ignoredProperties s1 \<and> (\<exists>l. logger s1 = logger s @ l)"
    by (rule call_frame)
next
  assume "calls s cs = (rs, s2)"
  then show "heap s2 = heap s \<and> realm s2 = realm s \<and>
      ignoredProperties s \<subseteq>\<^sub>m ignoredProperties s2 \<and> (\<exists>l. logger s2 = logger s @ l)"
    by (rule calls_frame)
qed

text \<open>
  A pass of four calls on the small heap, and a call that throws.
\<close>

theorem inspector_frame_witness:
  "fst (calls ex_state
     [IsLeaf (Object 1), CanIgnoreProperty 7 ''length'', IsDefaultPrototype 2,
      GetPropertyValue 2 ''constructor'']) =
     Inr [Boolean False, Boolean True, Boolean True, MaybeValue (Some (Object 1))] \<and>
   heap (snd (calls ex_state
     [IsLeaf (Object 1), CanIgnoreProperty 7 ''length'', IsDefaultPrototype 2,
      GetPropertyValue 2 ''constructor''])) = ex_heap \<and>
   realm (snd (calls ex_state
     [IsLeaf (Object 1), CanIgnoreProperty 7 ''length'', IsDefaultPrototype 2,
      GetPropertyValue 2 ''constructor''])) = ex_realm \<and>
   ignoredProperties ex_state \<subseteq>\<^sub>m ignoredProperties (snd (calls ex_state
     [IsLeaf (Object 1), CanIgnoreProperty 7 ''length'', IsDefaultPrototype 2,
      GetPropertyValue 2 ''constructor''])) \<and>
   fst (call ex_state (CanIgnoreProperty 6 ''arguments'')) = Inl InvariantViolation \<and>
   heap (snd (call ex_state (CanIgnoreProperty 6 ''arguments''))) = ex_heap"
proof -
  let ?c = "CanIgnoreProperty 6 ''arguments''"
  let ?cs = "[IsLeaf (Object 1), CanIgnoreProperty 7 ''length'', IsDefaultPrototype 2,
      GetPropertyValue 2 ''constructor'']"
  have res: "fst (calls ex_state ?cs) =
     Inr [Boolean False, Boolean True, Boolean True, MaybeValue (Some (Object 1))]"
    by (simp add: run_defs ex_defs)
  have thrown: "fst (call ex_state ?c) = Inl InvariantViolation"
    by (simp add: run_defs ex_defs)
  have h: "heap ex_state = ex_heap" "realm ex_state = ex_realm"
    by (simp_all add: ex_state_def ResidualHeapInspector_def)
  have c1: "call ex_state ?c = (fst (call ex_state ?c), snd (call ex_state ?c))"
    by (rule prod.collapse [symmetric])
  have c2: "calls ex_state ?cs = (fst (calls ex_state ?cs), snd (calls ex_state ?cs))"
    by (rule prod.collapse [symmetric])
  note frame = inspector_frame [of ex_state ?c "fst (call ex_state ?c)" "snd (call ex_state ?c)"
      ?cs "fst (calls ex_state ?cs)" "snd (calls ex_state ?cs)"]
  from frame [THEN conjunct1, THEN mp, OF c1] frame [THEN conjunct2, THEN mp, OF c2] res thrown h
  show ?thesis
    by (simp del: calls.simps call.simps)
qed

text \<open>
  Claim C3, amended. At any point of a pass that starts with a new inspector, for an
  object with unique binding names and a binding of it whose descriptor is absent: the
  name is not in the set \<^verbatim>\<open>_getIgnoredProperties\<close> computes for the object, and
  \<^verbatim>\<open>canIgnoreProperty\<close> answers false for it whenever it answers.
  \<^verbatim>\<open>isDefaultPrototype\<close>, however, runs over the names of all bindings, the
  deleted ones too: a deleted binding with a name other than \<^verbatim>\<open>constructor\<close>
  makes its verdict false.
\<close>

theorem deleted_property:
  assumes "calls (ResidualHeapInspector h r l) cs = (res, s)"
    and "distinct (map fst (properties (heap s val)))"
    and "(key, b) \<in> set (properties (heap s val))" and "descriptor b = None"
  shows "(\<forall>S s'. p_getIgnoredProperties s val = (Inr S, s') \<longrightarrow> key \<notin> S) \<and>
         (\<forall>x s'. canIgnoreProperty s val key = (Inr x, s') \<longrightarrow> \<not> x) \<and>
         (key \<noteq> ''constructor'' \<longrightarrow> \<not> isDefaultPrototype s val)"
proof (intro conjI allI impI)
  fix S s' assume "p_getIgnoredProperties s val = (Inr S, s')"
  from p_getIgnoredProperties_deleted [OF this assms(2-4)] show "key \<notin> S" .
next
  fix x s' assume c: "canIgnoreProperty s val key = (Inr x, s')"
  have m: "memo_consistent s"
    using calls_memo_consistent [OF memo_consistent_new assms(1)] .
  from c show "\<not> x"
  proof (cases rule: canIgnoreProperty_cases)
    case (hit S)
    with m have "p_getIgnoredProperties s val = (Inr S, snd (p_getIgnoredProperties s val))"
      by (simp add: memo_consistent_def prod_eq_iff)
    from p_getIgnoredProperties_deleted [OF this assms(2-4)] hit show ?thesis by simp
  next
    case (throw e)
    then show ?thesis by simp
  next
    case (miss S s1)
    from p_getIgnoredProperties_deleted [OF miss(2) assms(2-4)] miss show ?thesis by simp
  qed
next
  assume k: "key \<noteq> ''constructor''"
  from assms(3) have "key \<in> set (map fst (properties (heap s val)))"
    by force
  with k have "map fst (properties (heap s val)) \<noteq> [''constructor'']"
    by auto
  then show "\<not> isDefaultPrototype s val"
    using only_one_name [OF assms(2), of "''constructor''"]
    by (auto simp: isDefaultPrototype_def isDefaultPrototype_loop_eq)
qed

text \<open>Object 3 and its deleted binding \<^verbatim>\<open>foo\<close>, with a new inspector.\<close>

theorem deleted_property_witness:
  "fst (canIgnoreProperty ex_state 3 ''foo'') \<noteq> Inr True \<and> \<not> isDefaultPrototype ex_state 3"
proof -
  have c: "calls (ResidualHeapInspector ex_heap ex_realm []) [] = (Inr [], ex_state)"
    by (simp add: ex_state_def)
  have d: "distinct (map fst (properties (heap ex_state 3)))"
    by (simp add: ex_defs)
  have m: "(''foo'', deleted) \<in> set (properties (heap ex_state 3))"
    by (simp add: ex_defs)
  have n: "descriptor deleted = None"
    by (simp add: deleted_def)
  note t = deleted_property [OF c d m n]
  from t have b: "\<not> isDefaultPrototype ex_state 3"
    by simp
  from t have "canIgnoreProperty ex_state 3 ''foo'' \<noteq>
      (Inr True, snd (canIgnoreProperty ex_state 3 ''foo''))"
    by blast
  then have "fst (canIgnoreProperty ex_state 3 ''foo'') \<noteq> Inr True"
    by (simp add: prod_eq_iff)
  with b show ?thesis by simp
qed

text \<open>
  Claim C3 as the specification words it fails on objects 2 and 3, which differ by the
  deleted binding \<^verbatim>\<open>foo\<close> of object 3 only: object 2 is a default prototype
  and object 3 is not.
\<close>

theorem deleted_property_counterexample:
  "ex_heap 3 = (ex_heap 2)\<lparr>properties := properties (ex_heap 2) @ [(''foo'', \<lparr>descriptor = None\<rparr>)]\<rparr> \<and>
   isDefaultPrototype ex_state 2 \<and> \<not> isDefaultPrototype ex_state 3"
  by (simp add: isDefaultPrototype_def getPropertyValue_def ex_defs)

end
